theory Spec2Isabelle
  imports Complex_Main "HOL-Library.Char_ord" "HOL-Library.List_Lexorder"
begin

section \<open>Values of the host language\<close>

text \<open>
  The service is a set of request handlers over a relational store (\<open>src/main.py\<close>).
  Every handler is modelled as a function from the store before the request to a result
  and the store after it. An exception that leaves the handler is the \<open>Inl\<close> branch of
  the result.

  \<^item> \<open>NotFound\<close> is \<open>HTTPException(status_code=404)\<close>;
  \<^item> \<open>PersistenceError\<close> is the \<open>HTTPException(status_code=500)\<close> raised by the
    \<open>except\<close> branch after \<open>db.rollback()\<close>;
  \<^item> \<open>ValueError\<close> and \<open>OverflowError\<close> are the exceptions of \<open>int(...)\<close>, which no
    handler catches.

  The handlers modelled are \<open>create_personal_details\<close>, \<open>add_employment_details\<close>,
  \<open>add_loan_info\<close> and \<open>get_customer_summary\<close>; the search by name, the health check and
  the root handler are left out.
\<close>

datatype error = NotFound | PersistenceError | ValueError | OverflowError

text \<open>
  A \<open>datetime.date\<close> is modelled by its proleptic ordinal, so that the order of dates is
  the order of integers. Rendering a date as an ISO-8601 string is left to serialisation.
\<close>

type_synonym date = int

text \<open>
  A Python \<open>float\<close> is a finite binary fraction, an infinity or a NaN. A finite float is
  modelled by the rational number it denotes.
\<close>

datatype pyfloat = Finite rat | PosInf | NegInf | NaN

text \<open>\<open>int(x)\<close> for a float \<open>x\<close>: truncation toward zero; NaN and the infinities raise.\<close>

definition trunc :: "rat \<Rightarrow> int" where
  "trunc q = (if 0 \<le> q then \<lfloor>q\<rfloor> else \<lceil>q\<rceil>)"

definition int_of_float :: "pyfloat \<Rightarrow> error + int" where
  "int_of_float x =
     (case x of
        Finite q \<Rightarrow> Inr (trunc q)
      | PosInf \<Rightarrow> Inl OverflowError
      | NegInf \<Rightarrow> Inl OverflowError
      | NaN \<Rightarrow> Inl ValueError)"

subsection \<open>Decimal text\<close>

definition is_digit :: "char \<Rightarrow> bool" where
  "is_digit c = (CHR ''0'' \<le> c \<and> c \<le> CHR ''9'')"

definition digit_val :: "char \<Rightarrow> int" where
  "digit_val c = int (of_char c) - 48"

definition digit_char :: "nat \<Rightarrow> char" where
  "digit_char d = ''0123456789'' ! d"

text \<open>The characters \<open>str.strip()\<close> removes, among the ASCII ones.\<close>

definition is_space :: "char \<Rightarrow> bool" where
  "is_space c = (let n = (of_char c :: nat) in (9 \<le> n \<and> n \<le> 13) \<or> (28 \<le> n \<and> n \<le> 32))"

definition strip :: "string \<Rightarrow> string" where
  "strip s = dropWhile is_space (rev (dropWhile is_space (rev s)))"

text \<open>
  The digits of an integer literal: an underscore may stand between two digits.
  The accumulator holds the value read so far.
\<close>

fun int_body :: "int \<Rightarrow> string \<Rightarrow> int option" where
  "int_body acc [] = Some acc"
| "int_body acc (c # cs) =
     (if is_digit c then int_body (10 * acc + digit_val c) cs
      else if c = CHR ''_'' \<and> cs \<noteq> [] \<and> is_digit (hd cs) then int_body acc cs
      else None)"

text \<open>
  \<open>int(s)\<close> for a string \<open>s\<close> of ASCII characters, base 10: surrounding whitespace is
  dropped, one sign is allowed, and what remains must start with a digit.
\<close>

definition int_of_str :: "string \<Rightarrow> error + int" where
  "int_of_str s =
     (let t = strip s;
          neg = (t \<noteq> [] \<and> hd t = CHR ''-'');
          body = (if t \<noteq> [] \<and> (hd t = CHR ''-'' \<or> hd t = CHR ''+'') then tl t else t)
      in if body = [] \<or> \<not> is_digit (hd body) then Inl ValueError
         else (case int_body 0 body of
                 None \<Rightarrow> Inl ValueError
               | Some v \<Rightarrow> Inr (if neg then - v else v)))"

text \<open>The decimal digits of a natural number, without leading zeros.\<close>

fun dec :: "nat \<Rightarrow> string" where
  "dec n = (if n < 10 then [digit_char n] else dec (n div 10) @ [digit_char (n mod 10)])"

declare dec.simps [simp del]

text \<open>\<open>str(n)\<close> for an integer.\<close>

definition str_of_int :: "int \<Rightarrow> string" where
  "str_of_int n = (if n < 0 then CHR ''-'' # dec (nat (- n)) else dec (nat n))"

text \<open>\<open>s.zfill\<close>-like padding on the left with the character \<open>0\<close>.\<close>

definition zero_pad :: "nat \<Rightarrow> string \<Rightarrow> string" where
  "zero_pad w s = replicate (w - length s) CHR ''0'' @ s"

text \<open>
  The format specification \<open>04d\<close>: width 4 with zero fill; the sign counts toward the
  width and stands before the zeros.
\<close>

definition format_04d :: "int \<Rightarrow> string" where
  "format_04d n = (if n < 0 then CHR ''-'' # zero_pad 3 (dec (nat (- n))) else zero_pad 4 (dec (nat n)))"

section \<open>Requests\<close>

record PersonalDetailsRequest =
  name :: string
  fathers_name :: string
  dob :: date
  age :: int
  gender :: string
  marital_status :: string
  address :: string
  city :: string
  state :: string
  pincode :: int
  mobile :: int
  alternate_mobile :: "int option"
  email :: string
  nationality :: string

record EmploymentDetailsRequest =
  designation :: string
  monthly_income :: pyfloat

record LoanApplicationRequest =
  loan_amount :: pyfloat
  loan_required :: string
  application_date :: "date option"
  loan_status :: string

section \<open>The record store\<close>

text \<open>
  Modelled from the spec: the table classes \<open>MasterCustomerData\<close>, \<open>EmploymentInfo\<close> and
  \<open>LoanInfo\<close> of \<open>models.database_models\<close>, which are not among the sources. The columns
  are those the handlers read and write, with the types the specification gives them:
  monetary amounts are integers, and EMI, tenure and credit score may be null. Every row
  carries the customer identifier, so the three tables extend one record with that column.
\<close>

record row =
  Customer_ID :: string

record MasterCustomerData = row +
  Name :: string
  Fathers_Name :: string
  DOB :: date
  Age :: int
  Gender :: string
  Marital_Status :: string
  Address :: string
  City :: string
  State :: string
  Pincode :: int
  Mobile :: int
  Alternate_Mobile :: "int option"
  Email :: string
  Nationality :: string
  Customer_Since :: date

record EmploymentInfo = row +
  Designation :: string
  Monthly_Income :: int
  Employment_Status :: string
  Income_Verification :: string

record LoanInfo = row +
  Loan_Required :: string
  Loan_Amount :: int
  Loan_Purpose :: string
  Application_Date :: date
  Loan_Status :: string
  Collateral_Required :: string
  EMI :: "int option"
  Tenure_Months :: "int option"
  Credit_Score :: "int option"

text \<open>
  Modelled from the spec: the session of \<open>database.get_db\<close>, which is not among the sources,
  is the Record Store of the specification, with keyed lookup, filtered and ordered
  queries, and the insertion of one row in a transaction that is rolled back on failure.
  A table is the list of its rows in the store's natural order.
\<close>

record db =
  customer_table :: "MasterCustomerData list"
  employment_table :: "EmploymentInfo list"
  loan_table :: "LoanInfo list"

text \<open>
  What a request takes from its environment: the current date, and whether the store
  accepts the transaction (\<open>db.add; db.commit; db.refresh\<close>) or raises.
\<close>

record env =
  today :: date
  commit_ok :: bool

text \<open>\<open>Query.first()\<close>: the first row of the result, or \<open>None\<close>.\<close>

definition first :: "'a list \<Rightarrow> 'a option" where
  "first xs = (case xs of [] \<Rightarrow> None | x # _ \<Rightarrow> Some x)"

text \<open>
  \<open>Query.order_by(col.desc())\<close>: the rows by descending key. Rows with equal keys keep
  their order; the store promises nothing about them. Strings compare character by
  character on their codes.
\<close>

fun insert_desc :: "('r \<Rightarrow> 'k::linorder) \<Rightarrow> 'r \<Rightarrow> 'r list \<Rightarrow> 'r list" where
  "insert_desc key r [] = [r]"
| "insert_desc key r (x # xs) =
     (if key r < key x then x # insert_desc key r xs else r # x # xs)"

definition order_by_desc :: "('r \<Rightarrow> 'k::linorder) \<Rightarrow> 'r list \<Rightarrow> 'r list" where
  "order_by_desc key rows = foldr (insert_desc key) rows []"

section \<open>Customer identifiers\<close>

text \<open>Lines 268-270 of \<open>create_personal_details\<close>: the customer with the greatest identifier.\<close>

definition latest_customer :: "db \<Rightarrow> MasterCustomerData option" where
  "latest_customer d = first (order_by_desc Customer_ID (customer_table d))"

text \<open>
  Lines 273-279: the next identifier from the number of the latest one, \<open>None\<close> when
  there is no customer.
\<close>

definition allocate_next_id :: "int option \<Rightarrow> string" where
  "allocate_next_id current =
     (let new_num = (case current of Some last_num \<Rightarrow> max (last_num + 1) 111 | None \<Rightarrow> 111)
      in ''CUST'' @ format_04d new_num)"

text \<open>Lines 268-279 together; \<open>int(latest_customer.Customer_ID[4:])\<close> may raise.\<close>

definition next_customer_id :: "db \<Rightarrow> error + string" where
  "next_customer_id d =
     (case latest_customer d of
        None \<Rightarrow> Inr (allocate_next_id None)
      | Some c \<Rightarrow>
          (case int_of_str (drop 4 (Customer_ID c)) of
             Inl e \<Rightarrow> Inl e
           | Inr last_num \<Rightarrow> Inr (allocate_next_id (Some last_num))))"

record CustomerCreated =
  cc_customer_id :: string
  cc_name :: string
  cc_email :: string
  cc_mobile :: string
  cc_customer_since :: date

definition create_personal_details ::
  "env \<Rightarrow> PersonalDetailsRequest \<Rightarrow> db \<Rightarrow> (error + CustomerCreated) \<times> db" where
  "create_personal_details e details d =
     (case next_customer_id d of
        Inl err \<Rightarrow> (Inl err, d)
      | Inr customer_id \<Rightarrow>
          (let new_customer =
                 \<lparr>Customer_ID = customer_id,
                  Name = name details,
                  Fathers_Name = fathers_name details,
                  DOB = dob details,
                  Age = age details,
                  Gender = gender details,
                  Marital_Status = marital_status details,
                  Address = address details,
                  City = city details,
                  State = state details,
                  Pincode = pincode details,
                  Mobile = mobile details,
                  Alternate_Mobile = alternate_mobile details,
                  Email = email details,
                  Nationality = nationality details,
                  Customer_Since = today e\<rparr>
           in if commit_ok e
              then (Inr \<lparr>cc_customer_id = customer_id,
                         cc_name = Name new_customer,
                         cc_email = Email new_customer,
                         cc_mobile = str_of_int (Mobile new_customer),
                         cc_customer_since = Customer_Since new_customer\<rparr>,
                    d\<lparr>customer_table := customer_table d @ [new_customer]\<rparr>)
              else (Inl PersistenceError, d)))"

section \<open>Employment and loan records\<close>

text \<open>\<open>db.query(MasterCustomerData).filter_by(Customer_ID=customer_id).first()\<close>\<close>

definition find_customer :: "string \<Rightarrow> db \<Rightarrow> MasterCustomerData option" where
  "find_customer customer_id d = first (filter (\<lambda>c. Customer_ID c = customer_id) (customer_table d))"

record EmploymentAdded =
  ea_customer_id :: string
  ea_designation :: string
  ea_monthly_income :: rat
  ea_status :: string
  ea_verification :: string

definition add_employment_details ::
  "env \<Rightarrow> string \<Rightarrow> EmploymentDetailsRequest \<Rightarrow> db \<Rightarrow> (error + EmploymentAdded) \<times> db" where
  "add_employment_details e customer_id details d =
     (case find_customer customer_id d of
        None \<Rightarrow> (Inl NotFound, d)
      | Some customer \<Rightarrow>
          (case int_of_float (monthly_income details) of
             Inl err \<Rightarrow> (Inl err, d)
           | Inr income \<Rightarrow>
               (let employment =
                      \<lparr>Customer_ID = customer_id,
                       Designation = designation details,
                       Monthly_Income = income,
                       Employment_Status = ''Active'',
                       Income_Verification = ''Pending''\<rparr>
                in if commit_ok e
                   then (Inr \<lparr>ea_customer_id = customer_id,
                              ea_designation = Designation employment,
                              ea_monthly_income = of_int (Monthly_Income employment),
                              ea_status = Employment_Status employment,
                              ea_verification = Income_Verification employment\<rparr>,
                         d\<lparr>employment_table := employment_table d @ [employment]\<rparr>)
                   else (Inl PersistenceError, d))))"

record LoanAdded =
  la_customer_id :: string
  la_loan_amount :: rat
  la_loan_purpose :: string
  la_application_date :: date
  la_status :: string
  la_collateral :: string

text \<open>
  A new loan row leaves EMI, tenure and credit score unset. A date is never falsy, so
  \<open>details.application_date or datetime.now().date()\<close> replaces only \<open>None\<close>.
\<close>

definition add_loan_info ::
  "env \<Rightarrow> string \<Rightarrow> LoanApplicationRequest \<Rightarrow> db \<Rightarrow> (error + LoanAdded) \<times> db" where
  "add_loan_info e customer_id details d =
     (case find_customer customer_id d of
        None \<Rightarrow> (Inl NotFound, d)
      | Some customer \<Rightarrow>
          (case int_of_float (loan_amount details) of
             Inl err \<Rightarrow> (Inl err, d)
           | Inr amount \<Rightarrow>
               (let loan =
                      \<lparr>Customer_ID = customer_id,
                       Loan_Required = loan_required details,
                       Loan_Amount = amount,
                       Loan_Purpose = ''Home'',
                       Application_Date =
                         (case application_date details of Some a \<Rightarrow> a | None \<Rightarrow> today e),
                       Loan_Status = loan_status details,
                       Collateral_Required = ''documents'',
                       EMI = None,
                       Tenure_Months = None,
                       Credit_Score = None\<rparr>
                in if commit_ok e
                   then (Inr \<lparr>la_customer_id = customer_id,
                              la_loan_amount = of_int (Loan_Amount loan),
                              la_loan_purpose = Loan_Purpose loan,
                              la_application_date = Application_Date loan,
                              la_status = Loan_Status loan,
                              la_collateral = Collateral_Required loan\<rparr>,
                         d\<lparr>loan_table := loan_table d @ [loan]\<rparr>)
                   else (Inl PersistenceError, d))))"

section \<open>The customer summary\<close>

record ExistingLoan =
  el_type :: string
  el_amount :: rat
  el_monthly_emi :: rat
  el_tenure_years :: int
  el_status :: string

record Summary =
  sm_customer_id :: string
  sm_name :: string
  sm_monthly_income :: rat
  sm_credit_score :: "int option"
  sm_existing_loans :: "ExistingLoan list"

text \<open>\<open>x or 0\<close> and \<open>float(x) if x else 0\<close> on a nullable integer: null and zero are falsy.\<close>

definition or_zero :: "int option \<Rightarrow> int" where
  "or_zero x = (case x of None \<Rightarrow> 0 | Some v \<Rightarrow> if v = 0 then 0 else v)"

text \<open>The dictionary built for one loan, lines 187-193.\<close>

definition format_loan :: "LoanInfo \<Rightarrow> ExistingLoan" where
  "format_loan loan =
     \<lparr>el_type = Loan_Purpose loan,
      el_amount = of_int (Loan_Amount loan),
      el_monthly_emi = of_int (or_zero (EMI loan)),
      el_tenure_years = or_zero (Tenure_Months loan) div 12,
      el_status = Loan_Status loan\<rparr>"

definition get_customer_summary :: "string \<Rightarrow> db \<Rightarrow> error + Summary" where
  "get_customer_summary customer_id d =
     (case find_customer customer_id d of
        None \<Rightarrow> Inl NotFound
      | Some customer \<Rightarrow>
          (let employment = first (filter (\<lambda>r. Customer_ID r = customer_id) (employment_table d));
               loans = filter (\<lambda>l. Customer_ID l = customer_id \<and> Loan_Required l = ''Yes''
                                    \<and> 0 < Loan_Amount l) (loan_table d);
               latest_loan = first (order_by_desc Application_Date
                               (filter (\<lambda>l. Customer_ID l = customer_id \<and> Loan_Required l = ''Yes'')
                                  (loan_table d)));
               credit_score = (case latest_loan of Some l \<Rightarrow> Credit_Score l | None \<Rightarrow> None);
               existing_loans = foldl (\<lambda>acc loan. acc @ [format_loan loan]) [] loans
           in Inr \<lparr>sm_customer_id = Customer_ID customer,
                   sm_name = Name customer,
                   sm_monthly_income =
                     (case employment of Some r \<Rightarrow> of_int (Monthly_Income r) | None \<Rightarrow> 0),
                   sm_credit_score = credit_score,
                   sm_existing_loans = existing_loans\<rparr>))"

section \<open>Properties of stores, and sample data\<close>

text \<open>Every stored monetary amount is non-negative.\<close>

definition amounts_nonneg :: "db \<Rightarrow> bool" where
  "amounts_nonneg d =
     (list_all (\<lambda>r. 0 \<le> Monthly_Income r) (employment_table d)
      \<and> list_all (\<lambda>l. 0 \<le> Loan_Amount l) (loan_table d))"

text \<open>The sample request, rows and stores on which the theorems below are instantiated.\<close>

definition sample_details :: PersonalDetailsRequest where
  "sample_details =
     \<lparr>name = ''Ramesh Gupta'', fathers_name = ''Suresh Gupta'', dob = 726468, age = 35,
      gender = ''Male'', marital_status = ''Married'', address = ''12 MG Road'',
      city = ''Pune'', state = ''Maharashtra'', pincode = 411001, mobile = 9876543210,
      alternate_mobile = None, email = ''ramesh@example.com'', nationality = ''Indian''\<rparr>"

definition customer_row :: "string \<Rightarrow> MasterCustomerData" where
  "customer_row cid =
     \<lparr>Customer_ID = cid, Name = ''Ramesh Gupta'', Fathers_Name = ''Suresh Gupta'',
      DOB = 726468, Age = 35, Gender = ''Male'', Marital_Status = ''Married'',
      Address = ''12 MG Road'', City = ''Pune'', State = ''Maharashtra'', Pincode = 411001,
      Mobile = 9876543210, Alternate_Mobile = None, Email = ''ramesh@example.com'',
      Nationality = ''Indian'', Customer_Since = 739000\<rparr>"

definition ok_env :: env where
  "ok_env = \<lparr>today = 739193, commit_ok = True\<rparr>"



definition db_one_customer :: db where
  "db_one_customer =
     \<lparr>customer_table = [customer_row ''CUST0111''], employment_table = [], loan_table = []\<rparr>"

definition db_9999 :: db where
  "db_9999 =
     \<lparr>customer_table = [customer_row ''CUST9999''], employment_table = [], loan_table = []\<rparr>"

definition db_rollover :: db where
  "db_rollover =
     \<lparr>customer_table = [customer_row ''CUST9999'', customer_row ''CUST10000''],
      employment_table = [], loan_table = []\<rparr>"

definition loan_disbursed :: LoanInfo where
  "loan_disbursed =
     \<lparr>Customer_ID = ''CUST0111'', Loan_Required = ''Yes'', Loan_Amount = 200000,
      Loan_Purpose = ''Home'', Application_Date = 739000, Loan_Status = ''APPROVED'',
      Collateral_Required = ''documents'', EMI = Some 5000, Tenure_Months = Some 18,
      Credit_Score = Some 700\<rparr>"

definition loan_not_requested :: LoanInfo where
  "loan_not_requested =
     \<lparr>Customer_ID = ''CUST0111'', Loan_Required = ''No'', Loan_Amount = 300000,
      Loan_Purpose = ''Car'', Application_Date = 739100, Loan_Status = ''PENDING'',
      Collateral_Required = ''documents'', EMI = None, Tenure_Months = None,
      Credit_Score = Some 650\<rparr>"

definition loan_zero_amount :: LoanInfo where
  "loan_zero_amount =
     \<lparr>Customer_ID = ''CUST0111'', Loan_Required = ''Yes'', Loan_Amount = 0,
      Loan_Purpose = ''Home'', Application_Date = 739150, Loan_Status = ''PENDING'',
      Collateral_Required = ''documents'', EMI = None, Tenure_Months = None,
      Credit_Score = Some 710\<rparr>"

definition db_loans :: db where
  "db_loans =
     \<lparr>customer_table = [customer_row ''CUST0111''],
      employment_table =
        [\<lparr>Customer_ID = ''CUST0111'', Designation = ''Engineer'', Monthly_Income = 50000,
          Employment_Status = ''Active'', Income_Verification = ''Pending''\<rparr>],
      loan_table = [loan_disbursed, loan_not_requested, loan_zero_amount]\<rparr>"

definition db_zero_amount :: db where
  "db_zero_amount =
     \<lparr>customer_table = [customer_row ''CUST0111''], employment_table = [],
      loan_table = [loan_zero_amount]\<rparr>"

definition sample_employment :: EmploymentDetailsRequest where
  "sample_employment = \<lparr>designation = ''Engineer'', monthly_income = Finite 50000\<rparr>"

definition fractional_employment :: EmploymentDetailsRequest where
  "fractional_employment = \<lparr>designation = ''Engineer'', monthly_income = Finite (200003 / 4)\<rparr>"

definition negative_employment :: EmploymentDetailsRequest where
  "negative_employment = \<lparr>designation = ''Engineer'', monthly_income = Finite (- 5)\<rparr>"


definition sample_loan :: LoanApplicationRequest where
  "sample_loan =
     \<lparr>loan_amount = Finite 200000, loan_required = ''Yes'', application_date = None,
      loan_status = ''PENDING''\<rparr>"

definition fractional_loan :: LoanApplicationRequest where
  "fractional_loan =
     \<lparr>loan_amount = Finite (400001 / 2), loan_required = ''Yes'', application_date = Some 739100,
      loan_status = ''PENDING''\<rparr>"

text \<open>The number a string of digits denotes, and the identifiers with a suffix of 4 digits.\<close>

definition digits_value :: "string \<Rightarrow> int" where
  "digits_value xs = foldl (\<lambda>a c. 10 * a + digit_val c) 0 xs"

definition four_digit_id :: "string \<Rightarrow> bool" where
  "four_digit_id cid =
     (take 4 cid = ''CUST'' \<and> length (drop 4 cid) = 4 \<and> list_all is_digit (drop 4 cid))"

text \<open>The first row of a list is one with the greatest key.\<close>

definition head_greatest :: "('r \<Rightarrow> 'k::linorder) \<Rightarrow> 'r list \<Rightarrow> bool" where
  "head_greatest key xs = (case xs of [] \<Rightarrow> True | x # _ \<Rightarrow> \<forall>m\<in>set xs. key m \<le> key x)"

section \<open>Queries\<close>

lemma foldl_snoc_map: "foldl (\<lambda>acc x. acc @ [f x]) ys xs = ys @ map f xs"
  by (induction xs arbitrary: ys) simp_all

lemma first_eq_None: "first xs = None \<longleftrightarrow> xs = []"
  by (cases xs) (simp_all add: first_def)

lemma first_filter_None: "first (filter P xs) = None \<longleftrightarrow> (\<forall>x\<in>set xs. \<not> P x)"
  by (simp add: first_eq_None filter_empty_conv)

lemma set_insert_desc: "set (insert_desc key r xs) = insert r (set xs)"
  by (induction xs) auto

lemma set_order_by_desc: "set (order_by_desc key rows) = set rows"
  by (induction rows) (simp_all add: order_by_desc_def set_insert_desc)

lemma order_by_desc_Nil: "order_by_desc key rows = [] \<longleftrightarrow> rows = []"
  using set_order_by_desc [of key rows] by (metis set_empty)

lemma head_greatest_insert_desc:
  "head_greatest key xs \<Longrightarrow> head_greatest key (insert_desc key r xs)"
  by (cases xs) (auto simp: head_greatest_def set_insert_desc)

lemma head_greatest_order_by_desc: "head_greatest key (order_by_desc key rows)"
proof (induction rows)
  case Nil
  show ?case by (simp add: order_by_desc_def head_greatest_def)
next
  case (Cons r rows)
  then show ?case
    using head_greatest_insert_desc [of key "order_by_desc key rows" r]
    by (simp add: order_by_desc_def)
qed

lemma first_order_by_desc:
  assumes "first (order_by_desc key rows) = Some l"
  shows "l \<in> set rows \<and> (\<forall>m\<in>set rows. key m \<le> key l)"
proof -
  obtain ys where ys: "order_by_desc key rows = l # ys"
    using assms by (cases "order_by_desc key rows") (simp_all add: first_def)
  have "l \<in> set (order_by_desc key rows)" using ys by simp
  moreover have "\<forall>m\<in>set (order_by_desc key rows). key m \<le> key l"
    using head_greatest_order_by_desc [of key rows] ys by (simp add: head_greatest_def)
  ultimately show ?thesis by (simp add: set_order_by_desc)
qed

section \<open>The summary\<close>

lemma summary_loans_map:
  "get_customer_summary customer_id d = Inr s \<Longrightarrow>
   sm_existing_loans s = map format_loan (filter (\<lambda>l. Customer_ID l = customer_id \<and> Loan_Required l = ''Yes'' \<and> 0 < Loan_Amount l) (loan_table d))"
  by (auto simp: get_customer_summary_def Let_def foldl_snoc_map split: option.splits)

lemma summary_credit_score:
  "get_customer_summary customer_id d = Inr s \<Longrightarrow>
   sm_credit_score s =
     (case first (order_by_desc Application_Date
             (filter (\<lambda>l. Customer_ID l = customer_id \<and> Loan_Required l = ''Yes'') (loan_table d))) of
        Some l \<Rightarrow> Credit_Score l | None \<Rightarrow> None)"
  by (auto simp: get_customer_summary_def Let_def split: option.splits)

lemma summary_db_loans:
  "get_customer_summary ''CUST0111'' db_loans =
     Inr \<lparr>sm_customer_id = ''CUST0111'', sm_name = ''Ramesh Gupta'', sm_monthly_income = 50000,
          sm_credit_score = Some 710,
          sm_existing_loans =
            [\<lparr>el_type = ''Home'', el_amount = 200000, el_monthly_emi = 5000,
              el_tenure_years = 1, el_status = ''APPROVED''\<rparr>]\<rparr>"
  by (simp add: get_customer_summary_def find_customer_def first_def db_loans_def customer_row_def
      loan_disbursed_def loan_not_requested_def loan_zero_amount_def order_by_desc_def
      format_loan_def or_zero_def)

lemma requested_db_loans:
  "filter (\<lambda>l. Customer_ID l = ''CUST0111'' \<and> Loan_Required l = ''Yes'') (loan_table db_loans)
     = [loan_disbursed, loan_zero_amount]"
  by (simp add: db_loans_def loan_disbursed_def loan_not_requested_def loan_zero_amount_def)

lemma qualifying_db_loans:
  "filter (\<lambda>l. Customer_ID l = ''CUST0111'' \<and> Loan_Required l = ''Yes'' \<and> 0 < Loan_Amount l)
     (loan_table db_loans) = [loan_disbursed]"
  by (simp add: db_loans_def loan_disbursed_def loan_not_requested_def loan_zero_amount_def)

text \<open>
  Claim C4. For a customer that exists, the list \<open>existing_loans\<close> of the summary holds one
  entry for each stored loan row of the customer whose \<open>Loan_Required\<close> is \<open>Yes\<close> and whose
  \<open>Loan_Amount\<close> is greater than zero, in the order of the store, and no other entry: taking
  a row with another flag or with an amount of zero or less out of the store leaves the
  list as it is.
\<close>

theorem summary_existing_loans:
  assumes "get_customer_summary customer_id d = Inr s"
  shows "sm_existing_loans s =
           map format_loan
             (filter (\<lambda>l. Customer_ID l = customer_id \<and> Loan_Required l = ''Yes'' \<and> 0 < Loan_Amount l)
                (loan_table d))
         \<and> (\<forall>l\<in>set (loan_table d).
              Customer_ID l = customer_id \<longrightarrow> Loan_Required l \<noteq> ''Yes'' \<or> Loan_Amount l \<le> 0 \<longrightarrow>
              sm_existing_loans s =
                map format_loan
                  (filter (\<lambda>l. Customer_ID l = customer_id \<and> Loan_Required l = ''Yes'' \<and> 0 < Loan_Amount l)
                     (removeAll l (loan_table d))))"
proof -
  have "\<And>P l xs. \<not> P l \<Longrightarrow> filter P (removeAll l xs) = filter P (xs::LoanInfo list)"
    by (induct_tac xs) auto
  then show ?thesis
    using summary_loans_map [OF assms] by auto
qed

theorem summary_existing_loans_witness:
  "map_sum id sm_existing_loans (get_customer_summary ''CUST0111'' db_loans)
     = Inr [format_loan loan_disbursed]
   \<and> loan_table db_loans = [loan_disbursed, loan_not_requested, loan_zero_amount]
   \<and> Loan_Required loan_not_requested \<noteq> ''Yes'' \<and> Loan_Amount loan_zero_amount = 0"
proof -
  have rows: "loan_table db_loans = [loan_disbursed, loan_not_requested, loan_zero_amount]"
    by (simp add: db_loans_def)
  have excluded: "Loan_Required loan_not_requested \<noteq> ''Yes'' \<and> Loan_Amount loan_zero_amount = 0"
    by (simp add: loan_not_requested_def loan_zero_amount_def)
  have "sm_existing_loans
          \<lparr>sm_customer_id = ''CUST0111'', sm_name = ''Ramesh Gupta'', sm_monthly_income = 50000,
           sm_credit_score = Some 710,
           sm_existing_loans =
             [\<lparr>el_type = ''Home'', el_amount = 200000, el_monthly_emi = 5000,
               el_tenure_years = 1, el_status = ''APPROVED''\<rparr>]\<rparr>
        = [format_loan loan_disbursed]"
    using summary_existing_loans [OF summary_db_loans] by (simp only: qualifying_db_loans list.map)
  then show ?thesis
    using rows excluded by (simp add: summary_db_loans)
qed

text \<open>
  Claim C6. For a customer that exists, the credit score of the summary is that of a loan
  row with the greatest application date among the rows of the customer whose
  \<open>Loan_Required\<close> is \<open>Yes\<close>, whatever their amount; it is null when there is no such row.
\<close>

theorem summary_credit_score_latest:
  assumes "get_customer_summary customer_id d = Inr s"
  shows "let requested = filter (\<lambda>l. Customer_ID l = customer_id \<and> Loan_Required l = ''Yes'') (loan_table d)
         in (requested = [] \<longrightarrow> sm_credit_score s = None)
          \<and> (requested \<noteq> [] \<longrightarrow>
               (\<exists>l\<in>set requested. (\<forall>m\<in>set requested. Application_Date m \<le> Application_Date l)
                  \<and> sm_credit_score s = Credit_Score l))"
proof -
  define requested where
    "requested = filter (\<lambda>l. Customer_ID l = customer_id \<and> Loan_Required l = ''Yes'') (loan_table d)"
  have score: "sm_credit_score s =
      (case first (order_by_desc Application_Date requested) of Some l \<Rightarrow> Credit_Score l | None \<Rightarrow> None)"
    using summary_credit_score [OF assms] by (simp add: requested_def)
  have empty: "requested = [] \<longrightarrow> sm_credit_score s = None"
    using score by (auto simp: order_by_desc_def first_def)
  have nonempty: "requested \<noteq> [] \<longrightarrow>
      (\<exists>l\<in>set requested. (\<forall>m\<in>set requested. Application_Date m \<le> Application_Date l)
          \<and> sm_credit_score s = Credit_Score l)"
  proof
    assume ne: "requested \<noteq> []"
    then obtain l where l: "first (order_by_desc Application_Date requested) = Some l"
      using first_eq_None [of "order_by_desc Application_Date requested"]
        order_by_desc_Nil [of Application_Date requested] by (cases "first (order_by_desc Application_Date requested)") auto
    from first_order_by_desc [OF l] score l
    show "\<exists>l\<in>set requested. (\<forall>m\<in>set requested. Application_Date m \<le> Application_Date l)
          \<and> sm_credit_score s = Credit_Score l"
      by auto
  qed
  show ?thesis
    using empty nonempty by (simp add: requested_def Let_def)
qed

theorem summary_credit_score_latest_witness:
  "get_customer_summary ''CUST0111'' db_loans \<noteq> Inl NotFound
   \<and> filter (\<lambda>l. Customer_ID l = ''CUST0111'' \<and> Loan_Required l = ''Yes'') (loan_table db_loans)
       = [loan_disbursed, loan_zero_amount]
   \<and> Application_Date loan_disbursed \<le> Application_Date loan_zero_amount
   \<and> map_sum id sm_credit_score (get_customer_summary ''CUST0111'' db_loans)
       = Inr (Credit_Score loan_zero_amount)"
proof -
  have dates: "Application_Date loan_disbursed \<le> Application_Date loan_zero_amount"
    by (simp add: loan_disbursed_def loan_zero_amount_def)
  have score: "Credit_Score loan_zero_amount = Some 710"
    by (simp add: loan_zero_amount_def)
  show ?thesis
    using summary_credit_score_latest [OF summary_db_loans] dates score
    by (simp add: summary_db_loans requested_db_loans)
qed

text \<open>
  Claim C9. Every entry of \<open>existing_loans\<close> has for \<open>tenure_years\<close> the tenure in months of
  its loan row divided by 12 and rounded down, 0 when the tenure is null, and for
  \<open>monthly_emi\<close> 0 when the EMI is null; a tenure of 18 months gives 1 year.
\<close>

theorem summary_tenure_and_emi:
  assumes "get_customer_summary customer_id d = Inr s"
  shows "list_all2
           (\<lambda>loan entry.
              el_tenure_years entry = (case Tenure_Months loan of None \<Rightarrow> 0 | Some m \<Rightarrow> m div 12)
              \<and> (EMI loan = None \<longrightarrow> el_monthly_emi entry = 0)
              \<and> (Tenure_Months loan = Some 18 \<longrightarrow> el_tenure_years entry = 1))
           (filter (\<lambda>l. Customer_ID l = customer_id \<and> Loan_Required l = ''Yes'' \<and> 0 < Loan_Amount l)
              (loan_table d))
           (sm_existing_loans s)"
proof -
  have entry: "el_tenure_years (format_loan loan)
                 = (case Tenure_Months loan of None \<Rightarrow> 0 | Some m \<Rightarrow> m div 12)
               \<and> (EMI loan = None \<longrightarrow> el_monthly_emi (format_loan loan) = 0)
               \<and> (Tenure_Months loan = Some 18 \<longrightarrow> el_tenure_years (format_loan loan) = 1)"
    for loan
    by (simp add: format_loan_def or_zero_def split: option.splits)
  show ?thesis
    unfolding summary_loans_map [OF assms] list_all2_map2
    by (rule list_all2_all_nthI) (simp_all add: entry)
qed

theorem summary_tenure_and_emi_witness:
  "filter (\<lambda>l. Customer_ID l = ''CUST0111'' \<and> Loan_Required l = ''Yes'' \<and> 0 < Loan_Amount l)
     (loan_table db_loans) = [loan_disbursed]
   \<and> Tenure_Months loan_disbursed = Some 18
   \<and> map_sum id (map el_tenure_years \<circ> sm_existing_loans)
       (get_customer_summary ''CUST0111'' db_loans) = Inr [1]"
proof -
  have tenure: "Tenure_Months loan_disbursed = Some 18"
    by (simp add: loan_disbursed_def)
  show ?thesis
    using summary_tenure_and_emi [OF summary_db_loans] tenure
    by (simp add: summary_db_loans qualifying_db_loans)
qed

section \<open>Absent customers and empty summaries\<close>

lemma find_customer_None:
  "find_customer customer_id d = None \<longleftrightarrow> customer_id \<notin> Customer_ID ` set (customer_table d)"
  by (auto simp: find_customer_def first_filter_None)

lemma summary_db_zero_amount:
  "get_customer_summary ''CUST0111'' db_zero_amount =
     Inr \<lparr>sm_customer_id = ''CUST0111'', sm_name = ''Ramesh Gupta'', sm_monthly_income = 0,
          sm_credit_score = Some 710, sm_existing_loans = []\<rparr>"
  by (simp add: get_customer_summary_def find_customer_def first_def db_zero_amount_def
      customer_row_def loan_zero_amount_def order_by_desc_def format_loan_def or_zero_def)

text \<open>
  Claim C7, as stated, fails. A customer without employment row whose only loan row is
  requested with an amount of zero has no qualifying loan, and the summary still carries
  the credit score of that row: the query for the score does not look at the amount.
\<close>

theorem summary_credit_score_without_qualifying_loan:
  "find_customer ''CUST0111'' db_zero_amount = Some (customer_row ''CUST0111'')
   \<and> employment_table db_zero_amount = []
   \<and> loan_table db_zero_amount = [loan_zero_amount]
   \<and> Loan_Amount loan_zero_amount = 0
   \<and> get_customer_summary ''CUST0111'' db_zero_amount =
       Inr \<lparr>sm_customer_id = ''CUST0111'', sm_name = ''Ramesh Gupta'', sm_monthly_income = 0,
            sm_credit_score = Some 710, sm_existing_loans = []\<rparr>"
proof -
  have "find_customer ''CUST0111'' db_zero_amount = Some (customer_row ''CUST0111'')"
    by (simp add: find_customer_def first_def db_zero_amount_def customer_row_def)
  moreover have "employment_table db_zero_amount = [] \<and> loan_table db_zero_amount = [loan_zero_amount]"
    by (simp add: db_zero_amount_def)
  moreover have "Loan_Amount loan_zero_amount = 0"
    by (simp add: loan_zero_amount_def)
  ultimately show ?thesis
    using summary_db_zero_amount by simp
qed

text \<open>
  Claim C7, amended. The summary fails with \<open>NotFound\<close> exactly when no customer row has
  the identifier, and it fails in no other way. For a customer without employment row and
  without any loan row whose \<open>Loan_Required\<close> is \<open>Yes\<close>, it returns monthly income 0, a null
  credit score and an empty loan list. Without employment row and without qualifying
  loan, it returns monthly income 0 and an empty loan list.
\<close>

theorem summary_not_found_and_defaults:
  "(get_customer_summary customer_id d = Inl NotFound
      \<longleftrightarrow> customer_id \<notin> Customer_ID ` set (customer_table d))
   \<and> (\<forall>e. get_customer_summary customer_id d = Inl e \<longrightarrow> e = NotFound)
   \<and> (\<forall>s. get_customer_summary customer_id d = Inr s
          \<longrightarrow> (\<forall>r\<in>set (employment_table d). Customer_ID r \<noteq> customer_id)
          \<longrightarrow> (\<forall>l\<in>set (loan_table d). Customer_ID l = customer_id \<longrightarrow> Loan_Required l \<noteq> ''Yes'')
          \<longrightarrow> sm_monthly_income s = 0 \<and> sm_credit_score s = None \<and> sm_existing_loans s = [])
   \<and> (\<forall>s. get_customer_summary customer_id d = Inr s
          \<longrightarrow> (\<forall>r\<in>set (employment_table d). Customer_ID r \<noteq> customer_id)
          \<longrightarrow> (\<forall>l\<in>set (loan_table d). Customer_ID l = customer_id \<longrightarrow> Loan_Required l = ''Yes''
                  \<longrightarrow> Loan_Amount l \<le> 0)
          \<longrightarrow> sm_monthly_income s = 0 \<and> sm_existing_loans s = [])"
proof -
  have not_found: "get_customer_summary customer_id d = Inl NotFound
      \<longleftrightarrow> customer_id \<notin> Customer_ID ` set (customer_table d)"
    unfolding find_customer_None [symmetric]
    by (simp add: get_customer_summary_def Let_def split: option.splits)
  have only: "\<forall>e. get_customer_summary customer_id d = Inl e \<longrightarrow> e = NotFound"
    by (simp add: get_customer_summary_def Let_def split: option.splits)
  have income: "sm_monthly_income s = 0"
    if "get_customer_summary customer_id d = Inr s"
      and "\<forall>r\<in>set (employment_table d). Customer_ID r \<noteq> customer_id" for s
  proof -
    have "first (filter (\<lambda>r. Customer_ID r = customer_id) (employment_table d)) = None"
      using that(2) by (simp add: first_eq_None filter_empty_conv)
    then show ?thesis
      using that(1) by (auto simp: get_customer_summary_def Let_def split: option.splits)
  qed
  have loans: "sm_existing_loans s = []"
    if "get_customer_summary customer_id d = Inr s"
      and "\<forall>l\<in>set (loan_table d). Customer_ID l = customer_id \<longrightarrow> Loan_Required l = ''Yes''
             \<longrightarrow> Loan_Amount l \<le> 0" for s
  proof -
    have "filter (\<lambda>l. Customer_ID l = customer_id \<and> Loan_Required l = ''Yes'' \<and> 0 < Loan_Amount l)
            (loan_table d) = []"
      using that(2) by (auto simp: filter_empty_conv)
    then show ?thesis
      using summary_loans_map [OF that(1)] by simp
  qed
  have score: "sm_credit_score s = None"
    if "get_customer_summary customer_id d = Inr s"
      and "\<forall>l\<in>set (loan_table d). Customer_ID l = customer_id \<longrightarrow> Loan_Required l \<noteq> ''Yes''" for s
  proof -
    have "filter (\<lambda>l. Customer_ID l = customer_id \<and> Loan_Required l = ''Yes'') (loan_table d) = []"
      using that(2) by (auto simp: filter_empty_conv)
    then show ?thesis
      using summary_credit_score [OF that(1)] by (simp add: order_by_desc_def first_def)
  qed
  show ?thesis
    using not_found only income loans score by blast
qed

theorem summary_not_found_and_defaults_witness:
  "get_customer_summary ''CUST0999'' db_one_customer = Inl NotFound
   \<and> ''CUST0999'' \<notin> Customer_ID ` set (customer_table db_one_customer)
   \<and> employment_table db_one_customer = [] \<and> loan_table db_one_customer = []
   \<and> get_customer_summary ''CUST0111'' db_one_customer =
       Inr \<lparr>sm_customer_id = ''CUST0111'', sm_name = ''Ramesh Gupta'', sm_monthly_income = 0,
            sm_credit_score = None, sm_existing_loans = []\<rparr>"
proof -
  have absent: "''CUST0999'' \<notin> Customer_ID ` set (customer_table db_one_customer)"
    by (simp add: db_one_customer_def customer_row_def)
  have tables: "employment_table db_one_customer = [] \<and> loan_table db_one_customer = []"
    by (simp add: db_one_customer_def)
  have summary: "get_customer_summary ''CUST0111'' db_one_customer =
       Inr \<lparr>sm_customer_id = ''CUST0111'', sm_name = ''Ramesh Gupta'', sm_monthly_income = 0,
            sm_credit_score = None, sm_existing_loans = []\<rparr>"
    by (simp add: get_customer_summary_def find_customer_def first_def db_one_customer_def
        customer_row_def order_by_desc_def)
  show ?thesis
    using summary_not_found_and_defaults [of "''CUST0999''" db_one_customer]
      summary_not_found_and_defaults [of "''CUST0111''" db_one_customer] absent tables summary
    by simp
qed

section \<open>Creating employment and loan records\<close>

lemma trunc_nonneg_iff: "0 \<le> trunc q \<longleftrightarrow> - 1 < q"
proof (cases "0 \<le> q")
  case True
  then show ?thesis by (simp add: trunc_def)
next
  case False
  then show ?thesis by (simp add: trunc_def zero_le_ceiling)
qed

lemma trunc_of_int: "trunc (of_int n) = n"
  by (simp add: trunc_def)

lemma trunc_fraction:
  assumes "q \<notin> \<int>"
  shows "of_int (trunc q) \<noteq> q \<and> \<bar>of_int (trunc q)\<bar> < \<bar>q\<bar> \<and> \<bar>q\<bar> < \<bar>of_int (trunc q)\<bar> + 1"
proof (cases "0 \<le> q")
  case True
  have ne: "of_int \<lfloor>q\<rfloor> \<noteq> q" using assms by (metis Ints_of_int)
  have le: "of_int \<lfloor>q\<rfloor> \<le> q" by (rule of_int_floor_le)
  have lt: "q < of_int \<lfloor>q\<rfloor> + 1" using floor_correct [of q] by simp
  have nn: "0 \<le> (of_int \<lfloor>q\<rfloor> :: rat)" using True by simp
  have "of_int \<lfloor>q\<rfloor> < q" using le ne unfolding less_le by blast
  then have "\<bar>of_int \<lfloor>q\<rfloor>\<bar> < \<bar>q\<bar> \<and> \<bar>q\<bar> < \<bar>of_int \<lfloor>q\<rfloor>\<bar> + 1"
    using lt nn True by linarith
  then show ?thesis using True ne by (simp add: trunc_def)
next
  case False
  have ne: "of_int \<lceil>q\<rceil> \<noteq> q" using assms by (metis Ints_of_int)
  have ge: "q \<le> of_int \<lceil>q\<rceil>" by (rule le_of_int_ceiling)
  have gt: "of_int \<lceil>q\<rceil> < q + 1" using ceiling_correct [of q] by simp
  have np: "(of_int \<lceil>q\<rceil> :: rat) \<le> 0" using False by (simp add: ceiling_le_iff)
  have "q < of_int \<lceil>q\<rceil>" using ge ne unfolding less_le by (blast dest: sym)
  then have "\<bar>of_int \<lceil>q\<rceil>\<bar> < \<bar>q\<bar> \<and> \<bar>q\<bar> < \<bar>of_int \<lceil>q\<rceil>\<bar> + 1"
    using gt np False by linarith
  then show ?thesis using False ne by (simp add: trunc_def)
qed

lemma add_employment_details_cases:
  "add_employment_details e customer_id details d =
     (if find_customer customer_id d = None then (Inl NotFound, d)
      else case monthly_income details of
        Finite q \<Rightarrow>
          if commit_ok e
          then (Inr \<lparr>ea_customer_id = customer_id, ea_designation = designation details,
                     ea_monthly_income = of_int (trunc q), ea_status = ''Active'',
                     ea_verification = ''Pending''\<rparr>,
                d\<lparr>employment_table := employment_table d @
                    [\<lparr>Customer_ID = customer_id, Designation = designation details,
                      Monthly_Income = trunc q, Employment_Status = ''Active'',
                      Income_Verification = ''Pending''\<rparr>]\<rparr>)
          else (Inl PersistenceError, d)
      | PosInf \<Rightarrow> (Inl OverflowError, d)
      | NegInf \<Rightarrow> (Inl OverflowError, d)
      | NaN \<Rightarrow> (Inl ValueError, d))"
  by (simp add: add_employment_details_def int_of_float_def Let_def
      split: option.splits pyfloat.splits)

lemma add_loan_info_cases:
  "add_loan_info e customer_id details d =
     (if find_customer customer_id d = None then (Inl NotFound, d)
      else case loan_amount details of
        Finite p \<Rightarrow>
          if commit_ok e
          then (Inr \<lparr>la_customer_id = customer_id, la_loan_amount = of_int (trunc p),
                     la_loan_purpose = ''Home'',
                     la_application_date =
                       (case application_date details of Some a \<Rightarrow> a | None \<Rightarrow> today e),
                     la_status = loan_status details, la_collateral = ''documents''\<rparr>,
                d\<lparr>loan_table := loan_table d @
                    [\<lparr>Customer_ID = customer_id, Loan_Required = loan_required details,
                      Loan_Amount = trunc p, Loan_Purpose = ''Home'',
                      Application_Date =
                        (case application_date details of Some a \<Rightarrow> a | None \<Rightarrow> today e),
                      Loan_Status = loan_status details, Collateral_Required = ''documents'',
                      EMI = None, Tenure_Months = None, Credit_Score = None\<rparr>]\<rparr>)
          else (Inl PersistenceError, d)
      | PosInf \<Rightarrow> (Inl OverflowError, d)
      | NegInf \<Rightarrow> (Inl OverflowError, d)
      | NaN \<Rightarrow> (Inl ValueError, d))"
  by (simp add: add_loan_info_def int_of_float_def Let_def
      split: option.splits pyfloat.splits)

lemma find_customer_db_one_customer:
  "find_customer ''CUST0111'' db_one_customer = Some (customer_row ''CUST0111'')"
  by (simp add: find_customer_def first_def db_one_customer_def customer_row_def)





lemma amounts_nonneg_db_one_customer: "amounts_nonneg db_one_customer"
  by (simp add: amounts_nonneg_def db_one_customer_def)

text \<open>
  Claim C8, as stated, fails. A monthly income of \<open>-5.0\<close> passes the request schema
  (\<open>monthly_income: float\<close>) and is stored as \<open>-5\<close>: a store in which every amount was
  non-negative holds a negative amount afterwards.
\<close>

theorem negative_income_is_stored:
  "find_customer ''CUST0111'' db_one_customer = Some (customer_row ''CUST0111'')
   \<and> monthly_income negative_employment = Finite (- 5)
   \<and> amounts_nonneg db_one_customer
   \<and> employment_table
        (snd (add_employment_details ok_env ''CUST0111'' negative_employment db_one_customer))
       = [\<lparr>Customer_ID = ''CUST0111'', Designation = ''Engineer'', Monthly_Income = - 5,
           Employment_Status = ''Active'', Income_Verification = ''Pending''\<rparr>]
   \<and> \<not> amounts_nonneg
          (snd (add_employment_details ok_env ''CUST0111'' negative_employment db_one_customer))"
proof -
  have request: "monthly_income negative_employment = Finite (- 5)
      \<and> designation negative_employment = ''Engineer''"
    by (simp add: negative_employment_def)
  have stored: "trunc (- 5) = - 5"
    by (simp add: trunc_def)
  have "employment_table db_one_customer = []"
    by (simp add: db_one_customer_def)
  then have "snd (add_employment_details ok_env ''CUST0111'' negative_employment db_one_customer)
      = db_one_customer\<lparr>employment_table :=
          [\<lparr>Customer_ID = ''CUST0111'', Designation = ''Engineer'', Monthly_Income = - 5,
            Employment_Status = ''Active'', Income_Verification = ''Pending''\<rparr>]\<rparr>"
    by (simp add: add_employment_details_cases find_customer_db_one_customer request stored
        ok_env_def)
  then show ?thesis
    using find_customer_db_one_customer request amounts_nonneg_db_one_customer
    by (simp add: amounts_nonneg_def)
qed

text \<open>
  Claim C8, amended. The amount stored is the submitted amount truncated toward zero, which
  is non-negative exactly when the submitted amount is greater than \<open>-1\<close>. So in a store
  where every monetary amount is non-negative, adding employment details or loan
  information with a submitted amount greater than \<open>-1\<close> leaves every amount non-negative,
  and so does creating a customer.
\<close>

theorem stored_amounts_nonneg:
  assumes "amounts_nonneg d"
  shows "((\<forall>q. monthly_income er = Finite q \<longrightarrow> - 1 < q) \<longrightarrow>
            amounts_nonneg (snd (add_employment_details e customer_id er d)))
       \<and> ((\<forall>p. loan_amount lr = Finite p \<longrightarrow> - 1 < p) \<longrightarrow>
            amounts_nonneg (snd (add_loan_info e customer_id lr d)))
       \<and> amounts_nonneg (snd (create_personal_details e details d))
       \<and> (0 \<le> trunc x \<longleftrightarrow> - 1 < x)"
proof -
  have employment: "amounts_nonneg (snd (add_employment_details e customer_id er d))"
    if "\<forall>q. monthly_income er = Finite q \<longrightarrow> - 1 < q"
    using that assms
    by (cases "monthly_income er")
      (auto simp: add_employment_details_cases amounts_nonneg_def trunc_nonneg_iff)
  have loan: "amounts_nonneg (snd (add_loan_info e customer_id lr d))"
    if "\<forall>p. loan_amount lr = Finite p \<longrightarrow> - 1 < p"
    using that assms
    by (cases "loan_amount lr")
      (auto simp: add_loan_info_cases amounts_nonneg_def trunc_nonneg_iff)
  have customer: "amounts_nonneg (snd (create_personal_details e details d))"
    using assms
    by (auto simp: create_personal_details_def amounts_nonneg_def Let_def split: sum.splits)
  show ?thesis
    using employment loan customer trunc_nonneg_iff [of x] by blast
qed

theorem stored_amounts_nonneg_witness:
  "amounts_nonneg db_loans
   \<and> monthly_income sample_employment = Finite 50000
   \<and> loan_amount sample_loan = Finite 200000
   \<and> amounts_nonneg (snd (add_employment_details ok_env ''CUST0111'' sample_employment db_loans))
   \<and> amounts_nonneg (snd (add_loan_info ok_env ''CUST0111'' sample_loan db_loans))
   \<and> amounts_nonneg (snd (create_personal_details ok_env sample_details db_loans))"
proof -
  have start: "amounts_nonneg db_loans"
    by (simp add: amounts_nonneg_def db_loans_def loan_disbursed_def loan_not_requested_def
        loan_zero_amount_def)
  have requests: "monthly_income sample_employment = Finite 50000
      \<and> loan_amount sample_loan = Finite 200000"
    by (simp add: sample_employment_def sample_loan_def)
  show ?thesis
    using stored_amounts_nonneg [OF start, where er = sample_employment and lr = sample_loan
        and e = ok_env and customer_id = "''CUST0111''" and details = sample_details]
      start requests
    by simp
qed

text \<open>
  Claim C10. For an existing customer and an accepted transaction, the monthly income and
  the loan amount stored are the submitted finite values truncated toward zero, and the
  response echoes the stored value. For a submitted value that is not an integer, the
  stored value differs from it, is smaller in magnitude, and by less than 1. The summary of
  a customer without earlier employment row reports the truncated income. The value
  \<open>50000.75\<close> is stored as \<open>50000\<close>.
\<close>

theorem creation_truncates_amount:
  assumes "find_customer customer_id d \<noteq> None" and "commit_ok e"
    and "monthly_income er = Finite q" and "loan_amount lr = Finite p"
  shows "Monthly_Income (last (employment_table (snd (add_employment_details e customer_id er d))))
           = trunc q
       \<and> map_sum id ea_monthly_income (fst (add_employment_details e customer_id er d))
           = Inr (of_int (trunc q))
       \<and> Loan_Amount (last (loan_table (snd (add_loan_info e customer_id lr d)))) = trunc p
       \<and> map_sum id la_loan_amount (fst (add_loan_info e customer_id lr d))
           = Inr (of_int (trunc p))
       \<and> (q \<notin> \<int> \<longrightarrow>
            of_int (trunc q) \<noteq> q \<and> \<bar>of_int (trunc q)\<bar> < \<bar>q\<bar> \<and> \<bar>q\<bar> < \<bar>of_int (trunc q)\<bar> + 1)
       \<and> (p \<notin> \<int> \<longrightarrow>
            of_int (trunc p) \<noteq> p \<and> \<bar>of_int (trunc p)\<bar> < \<bar>p\<bar> \<and> \<bar>p\<bar> < \<bar>of_int (trunc p)\<bar> + 1)
       \<and> ((\<forall>r\<in>set (employment_table d). Customer_ID r \<noteq> customer_id) \<longrightarrow>
            map_sum id sm_monthly_income
              (get_customer_summary customer_id (snd (add_employment_details e customer_id er d)))
            = Inr (of_int (trunc q)))
       \<and> trunc (200003 / 4) = 50000"
proof -
  have stored: "Monthly_Income (last (employment_table (snd (add_employment_details e customer_id er d))))
           = trunc q
       \<and> map_sum id ea_monthly_income (fst (add_employment_details e customer_id er d))
           = Inr (of_int (trunc q))"
    using assms by (simp add: add_employment_details_cases)
  have stored_loan: "Loan_Amount (last (loan_table (snd (add_loan_info e customer_id lr d)))) = trunc p
       \<and> map_sum id la_loan_amount (fst (add_loan_info e customer_id lr d))
           = Inr (of_int (trunc p))"
    using assms by (simp add: add_loan_info_cases)
  have reported: "map_sum id sm_monthly_income
              (get_customer_summary customer_id (snd (add_employment_details e customer_id er d)))
            = Inr (of_int (trunc q))"
    if "\<forall>r\<in>set (employment_table d). Customer_ID r \<noteq> customer_id"
  proof -
    have "filter (\<lambda>r. Customer_ID r = customer_id) (employment_table d) = []"
      using that by (simp add: filter_empty_conv)
    then show ?thesis
      using assms
      by (auto simp: add_employment_details_cases get_customer_summary_def find_customer_def
          first_def Let_def split: option.splits list.splits)
  qed
  have example: "trunc (200003 / 4) = 50000"
    by (simp add: trunc_def floor_eq_iff)
  show ?thesis
    using stored stored_loan reported example trunc_fraction [of q] trunc_fraction [of p]
    by blast
qed

theorem creation_truncates_amount_witness:
  "monthly_income fractional_employment = Finite (200003 / 4)
   \<and> (200003 / 4 :: rat) \<notin> \<int>
   \<and> loan_amount fractional_loan = Finite (400001 / 2)
   \<and> employment_table
        (snd (add_employment_details ok_env ''CUST0111'' fractional_employment db_one_customer))
       = [\<lparr>Customer_ID = ''CUST0111'', Designation = ''Engineer'', Monthly_Income = 50000,
           Employment_Status = ''Active'', Income_Verification = ''Pending''\<rparr>]
   \<and> map_sum id ea_monthly_income
        (fst (add_employment_details ok_env ''CUST0111'' fractional_employment db_one_customer))
       = Inr 50000
   \<and> map_sum id la_loan_amount
        (fst (add_loan_info ok_env ''CUST0111'' fractional_loan db_one_customer))
       = Inr 200000
   \<and> map_sum id sm_monthly_income
        (get_customer_summary ''CUST0111''
          (snd (add_employment_details ok_env ''CUST0111'' fractional_employment db_one_customer)))
       = Inr 50000"
proof -
  have found: "find_customer ''CUST0111'' db_one_customer \<noteq> None"
    using find_customer_db_one_customer by simp
  have ok: "commit_ok ok_env"
    by (simp add: ok_env_def)
  have income: "monthly_income fractional_employment = Finite (200003 / 4)"
    by (simp add: fractional_employment_def)
  have amount: "loan_amount fractional_loan = Finite (400001 / 2)"
    by (simp add: fractional_loan_def)
  have fraction: "(200003 / 4 :: rat) \<notin> \<int>"
  proof
    assume "(200003 / 4 :: rat) \<in> \<int>"
    then obtain n :: int where "(200003 / 4 :: rat) = of_int n"
      by (auto elim: Ints_cases)
    then have "(200003 :: rat) = of_int (4 * n)" by simp
    then have "(200003 :: int) = 4 * n" by (metis of_int_eq_iff of_int_numeral)
    then show False by presburger
  qed
  have truncated: "trunc (200003 / 4) = 50000 \<and> trunc (400001 / 2) = 200000"
    by (simp add: trunc_def floor_eq_iff)
  have none: "employment_table db_one_customer = []"
    by (simp add: db_one_customer_def)
  have stored: "employment_table
        (snd (add_employment_details ok_env ''CUST0111'' fractional_employment db_one_customer))
       = [\<lparr>Customer_ID = ''CUST0111'', Designation = ''Engineer'', Monthly_Income = 50000,
           Employment_Status = ''Active'', Income_Verification = ''Pending''\<rparr>]"
    using found ok income truncated none
    by (simp add: add_employment_details_cases fractional_employment_def)
  show ?thesis
    using creation_truncates_amount [OF found ok income amount] income amount fraction truncated
      none stored
    by simp
qed

section \<open>Allocating customer identifiers\<close>





lemma is_digit_not_space: "is_digit c \<Longrightarrow> \<not> is_space c"
  by (auto simp: is_digit_def is_space_def Let_def less_eq_char_def)

lemma is_digit_not_sign: "is_digit c \<Longrightarrow> c \<noteq> CHR ''-'' \<and> c \<noteq> CHR ''+''"
  by (auto simp: is_digit_def)




lemma int_body_digits:
  "\<forall>c\<in>set xs. is_digit c \<Longrightarrow>
   int_body acc xs = Some (foldl (\<lambda>a c. 10 * a + digit_val c) acc xs)"
  by (induction xs arbitrary: acc) simp_all



lemma strip_digits:
  assumes "\<forall>c\<in>set xs. is_digit c"
  shows "strip xs = xs"
proof (cases xs)
  case Nil
  then show ?thesis by (simp add: strip_def)
next
  case (Cons x ys)
  have nonempty: "rev xs \<noteq> []" using Cons by simp
  then have "hd (rev xs) \<in> set (rev xs)" by (rule hd_in_set)
  then have "\<not> is_space (hd (rev xs))"
    using assms by (simp add: is_digit_not_space)
  then have inner: "dropWhile is_space (rev xs) = rev xs"
    using nonempty by (cases "rev xs") simp_all
  have "\<not> is_space x" using assms Cons by (simp add: is_digit_not_space)
  then show ?thesis
    using Cons inner by (simp add: strip_def)
qed

lemma int_of_str_digits:
  assumes "xs \<noteq> []" and "\<forall>c\<in>set xs. is_digit c"
  shows "int_of_str xs = Inr (foldl (\<lambda>a c. 10 * a + digit_val c) 0 xs)"
proof -
  have "is_digit (hd xs)" using assms by simp
  then show ?thesis
    using assms is_digit_not_sign [of "hd xs"]
    by (simp add: int_of_str_def strip_digits int_body_digits Let_def)
qed



lemma allocate_next_id_examples:
  "allocate_next_id None = ''CUST0111''"
  "allocate_next_id (Some 150) = ''CUST0151''"
  "allocate_next_id (Some 5) = ''CUST0111''"
  "allocate_next_id (Some 111) = ''CUST0112''"
  "allocate_next_id (Some 9999) = ''CUST10000''"
  by (simp_all add: allocate_next_id_def format_04d_def zero_pad_def dec.simps digit_char_def)

lemma next_customer_id_cases:
  "next_customer_id d =
     (case latest_customer d of
        None \<Rightarrow> Inr ''CUST0111''
      | Some c \<Rightarrow> map_sum id (\<lambda>m. allocate_next_id (Some m)) (int_of_str (drop 4 (Customer_ID c))))"
  by (simp add: next_customer_id_def allocate_next_id_examples split: option.splits sum.splits)

lemma create_personal_details_issues:
  assumes "next_customer_id d = Inr cid" and "commit_ok e"
  shows "map_sum id cc_customer_id (fst (create_personal_details e details d)) = Inr cid
       \<and> map Customer_ID (customer_table (snd (create_personal_details e details d)))
           = map Customer_ID (customer_table d) @ [cid]"
  using assms by (simp add: create_personal_details_def Let_def)



lemma int_of_str_examples:
  "int_of_str ''0111'' = Inr 111"
  "int_of_str ''9999'' = Inr 9999"
  "int_of_str ''10000'' = Inr 10000"
  by (simp_all add: int_of_str_def strip_def is_space_def is_digit_def digit_val_def)


section \<open>Identifiers beyond four digits\<close>

lemma latest_customer_db_rollover:
  "latest_customer db_rollover = Some (customer_row ''CUST9999'')"
  by (simp add: latest_customer_def order_by_desc_def first_def db_rollover_def customer_row_def)

text \<open>
  Claim C2 on a store that holds \<open>CUST9999\<close> and \<open>CUST10000\<close>. The query orders the
  identifiers as strings, and \<open>CUST9999\<close> is the greatest string although its number is not
  the greatest: the number that is incremented is 9999, and the next identifier is
  \<open>CUST10000\<close>, which the store already holds.
\<close>

theorem latest_customer_is_string_maximum:
  "map Customer_ID (customer_table db_rollover) = [''CUST9999'', ''CUST10000'']
   \<and> int_of_str (drop 4 ''CUST9999'') = Inr 9999
   \<and> int_of_str (drop 4 ''CUST10000'') = Inr 10000
   \<and> map_option Customer_ID (latest_customer db_rollover) = Some ''CUST9999''
   \<and> next_customer_id db_rollover = Inr ''CUST10000''"
proof -
  have ids: "map Customer_ID (customer_table db_rollover) = [''CUST9999'', ''CUST10000'']"
    by (simp add: db_rollover_def customer_row_def)
  have latest: "map_option Customer_ID (latest_customer db_rollover) = Some ''CUST9999''"
    by (simp add: latest_customer_db_rollover customer_row_def)
  have "next_customer_id db_rollover = Inr (allocate_next_id (Some 9999))"
    by (simp add: next_customer_id_cases latest_customer_db_rollover customer_row_def
        int_of_str_examples)
  then show ?thesis
    using ids latest by (simp add: int_of_str_examples allocate_next_id_examples)
qed

lemma next_customer_id_db_9999: "next_customer_id db_9999 = Inr ''CUST10000''"
proof -
  have "latest_customer db_9999 = Some (customer_row ''CUST9999'')"
    by (simp add: latest_customer_def order_by_desc_def first_def db_9999_def)
  then show ?thesis
    by (simp add: next_customer_id_cases customer_row_def int_of_str_examples
        allocate_next_id_examples)
qed

lemma next_customer_id_after_9999:
  assumes "map Customer_ID (customer_table d) = [''CUST9999'', ''CUST10000'']"
  shows "next_customer_id d = Inr ''CUST10000''"
proof -
  obtain a b where rows: "customer_table d = [a, b]"
    and a: "Customer_ID a = ''CUST9999''" and b: "Customer_ID b = ''CUST10000''"
    using assms by (auto simp: map_eq_Cons_conv)
  have "latest_customer d = Some a"
    by (simp add: latest_customer_def order_by_desc_def first_def rows a b)
  then show ?thesis
    by (simp add: next_customer_id_cases a int_of_str_examples allocate_next_id_examples)
qed

text \<open>
  Claim C3 on a store whose only customer is \<open>CUST9999\<close>. Two successive creations, both
  accepted by the store, issue \<open>CUST10000\<close> and then \<open>CUST10000\<close> again: the second number
  is not greater than the first.
\<close>

theorem allocation_repeats_after_9999:
  "map Customer_ID (customer_table db_9999) = [''CUST9999'']
   \<and> map_sum id cc_customer_id (fst (create_personal_details ok_env sample_details db_9999))
       = Inr ''CUST10000''
   \<and> map Customer_ID
        (customer_table (snd (create_personal_details ok_env sample_details db_9999)))
       = [''CUST9999'', ''CUST10000'']
   \<and> map_sum id cc_customer_id
        (fst (create_personal_details ok_env sample_details
               (snd (create_personal_details ok_env sample_details db_9999))))
       = Inr ''CUST10000''
   \<and> map Customer_ID
        (customer_table
          (snd (create_personal_details ok_env sample_details
                 (snd (create_personal_details ok_env sample_details db_9999)))))
       = [''CUST9999'', ''CUST10000'', ''CUST10000'']"
proof -
  have ok: "commit_ok ok_env"
    by (simp add: ok_env_def)
  have ids: "map Customer_ID (customer_table db_9999) = [''CUST9999'']"
    by (simp add: db_9999_def customer_row_def)
  have one: "map_sum id cc_customer_id (fst (create_personal_details ok_env sample_details db_9999))
        = Inr ''CUST10000''
      \<and> map Customer_ID
          (customer_table (snd (create_personal_details ok_env sample_details db_9999)))
        = [''CUST9999'', ''CUST10000'']"
    using create_personal_details_issues [OF next_customer_id_db_9999 ok, of sample_details] ids
    by simp
  then have "next_customer_id (snd (create_personal_details ok_env sample_details db_9999))
      = Inr ''CUST10000''"
    by (simp add: next_customer_id_after_9999)
  from create_personal_details_issues [OF this ok, of sample_details] one ids
  show ?thesis by simp
qed

section \<open>Stores with four-digit identifiers\<close>

lemma foldl_digits_acc:
  "foldl (\<lambda>a c. 10 * a + digit_val c) acc xs = acc * 10 ^ length xs + digits_value xs"
proof (induction xs arbitrary: acc)
  case Nil
  show ?case by (simp add: digits_value_def)
next
  case (Cons x xs)
  have "foldl (\<lambda>a c. 10 * a + digit_val c) acc (x # xs)
      = (10 * acc + digit_val x) * 10 ^ length xs + digits_value xs"
    using Cons [of "10 * acc + digit_val x"] by simp
  moreover have "digits_value (x # xs) = digit_val x * 10 ^ length xs + digits_value xs"
    using Cons [of "digit_val x"] by (simp add: digits_value_def)
  ultimately show ?case by (simp add: algebra_simps)
qed

lemma digits_value_Cons:
  "digits_value (x # xs) = digit_val x * 10 ^ length xs + digits_value xs"
  using foldl_digits_acc [of "digit_val x" xs] by (simp add: digits_value_def)

lemma digit_val_range: "is_digit c \<Longrightarrow> 0 \<le> digit_val c \<and> digit_val c \<le> 9"
  by (auto simp: is_digit_def digit_val_def less_eq_char_def)

lemma digit_val_mono: "is_digit x \<Longrightarrow> is_digit y \<Longrightarrow> x < y \<Longrightarrow> digit_val x < digit_val y"
  by (auto simp: digit_val_def less_char_def)

lemma digits_value_range:
  "list_all is_digit xs \<Longrightarrow> 0 \<le> digits_value xs \<and> digits_value xs < 10 ^ length xs"
proof (induction xs)
  case Nil
  show ?case by (simp add: digits_value_def)
next
  case (Cons x xs)
  then have x: "0 \<le> digit_val x" "digit_val x \<le> 9"
    and xs: "0 \<le> digits_value xs" "digits_value xs < 10 ^ length xs"
    using digit_val_range [of x] by simp_all
  have upper: "digit_val x * 10 ^ length xs \<le> 9 * 10 ^ length xs"
    using x(2) by (simp add: mult_right_mono)
  have lower: "0 \<le> digit_val x * 10 ^ length xs"
    using x(1) by simp
  have power: "(10::int) ^ length (x # xs) = 10 * 10 ^ length xs"
    by simp
  show ?case
    unfolding digits_value_Cons power using upper lower xs by linarith
qed

lemma digits_value_mono:
  assumes "length xs = length ys" and "list_all is_digit xs" and "list_all is_digit ys"
    and "xs \<le> ys"
  shows "digits_value xs \<le> digits_value ys"
  using assms
proof (induction xs ys rule: list_induct2)
  case Nil
  show ?case by simp
next
  case (Cons x xs y ys)
  from Cons.prems have order: "x < y \<or> x = y \<and> xs \<le> ys" by simp
  show ?case
  proof (cases "x < y")
    case True
    have "digit_val x + 1 \<le> digit_val y"
      using digit_val_mono [of x y] Cons.prems True by simp
    then have "(digit_val x + 1) * 10 ^ length xs \<le> digit_val y * 10 ^ length xs"
      by (simp add: mult_right_mono)
    moreover have "digits_value xs < 10 ^ length xs"
      using digits_value_range [of xs] Cons.prems by simp
    moreover have "0 \<le> digits_value ys"
      using digits_value_range [of ys] Cons.prems by simp
    ultimately show ?thesis
      unfolding digits_value_Cons Cons.hyps by (simp only: distrib_right)
  next
    case False
    then have "x = y" "xs \<le> ys" using order by simp_all
    then show ?thesis
      using Cons.IH Cons.prems Cons.hyps by (simp add: digits_value_Cons)
  qed
qed

lemma append_le_append: "(zs @ xs \<le> zs @ ys) \<longleftrightarrow> (xs \<le> (ys :: 'a :: linorder list))"
  by (induction zs) simp_all

lemma four_digit_id_number:
  assumes "four_digit_id cid"
  shows "int_of_str (drop 4 cid) = Inr (digits_value (drop 4 cid))"
proof -
  have "drop 4 cid \<noteq> []" using assms by (auto simp: four_digit_id_def)
  moreover have "\<forall>c\<in>set (drop 4 cid). is_digit c"
    using assms by (simp add: four_digit_id_def list_all_iff)
  ultimately show ?thesis
    unfolding digits_value_def by (rule int_of_str_digits)
qed

lemma four_digit_id_mono:
  assumes "four_digit_id a" and "four_digit_id b" and "a \<le> b"
  shows "digits_value (drop 4 a) \<le> digits_value (drop 4 b)"
proof -
  have a: "a = ''CUST'' @ drop 4 a" and b: "b = ''CUST'' @ drop 4 b"
    using assms(1,2) append_take_drop_id [of 4 a] append_take_drop_id [of 4 b]
    by (simp_all add: four_digit_id_def)
  have "''CUST'' @ drop 4 a \<le> ''CUST'' @ drop 4 b"
    using assms(3) a b by simp
  then have "drop 4 a \<le> drop 4 b"
    by (simp only: append_le_append)
  then show ?thesis
    using assms(1,2) by (intro digits_value_mono) (simp_all add: four_digit_id_def)
qed

text \<open>
  While every stored identifier is \<open>CUST\<close> followed by exactly 4 digits, the order of the
  identifiers as strings is the order of their numbers: the query finds a customer with the
  greatest number, and the next number is greater than every stored one.
\<close>

lemma four_digit_store_allocation:
  assumes ids: "\<forall>c\<in>set (customer_table d). four_digit_id (Customer_ID c)"
    and nonempty: "customer_table d \<noteq> []"
  shows "\<exists>l\<in>set (customer_table d).
           (\<forall>c\<in>set (customer_table d).
              digits_value (drop 4 (Customer_ID c)) \<le> digits_value (drop 4 (Customer_ID l)))
           \<and> next_customer_id d
               = Inr (allocate_next_id (Some (digits_value (drop 4 (Customer_ID l)))))
           \<and> (\<forall>c\<in>set (customer_table d).
                 digits_value (drop 4 (Customer_ID c))
                   < max (digits_value (drop 4 (Customer_ID l)) + 1) 111)"
proof -
  obtain l where l: "latest_customer d = Some l"
    using nonempty first_eq_None [of "order_by_desc Customer_ID (customer_table d)"]
      order_by_desc_Nil [of Customer_ID "customer_table d"]
    by (cases "latest_customer d") (auto simp: latest_customer_def)
  then have member: "l \<in> set (customer_table d)"
    and greatest: "\<forall>c\<in>set (customer_table d). Customer_ID c \<le> Customer_ID l"
    using first_order_by_desc [of Customer_ID "customer_table d" l]
    by (simp_all add: latest_customer_def)
  have numbers: "\<forall>c\<in>set (customer_table d).
      digits_value (drop 4 (Customer_ID c)) \<le> digits_value (drop 4 (Customer_ID l))"
    using ids member greatest by (auto intro: four_digit_id_mono)
  have "next_customer_id d
      = Inr (allocate_next_id (Some (digits_value (drop 4 (Customer_ID l)))))"
    using l ids member by (simp add: next_customer_id_cases four_digit_id_number)
  moreover have "\<forall>c\<in>set (customer_table d).
      digits_value (drop 4 (Customer_ID c)) < max (digits_value (drop 4 (Customer_ID l)) + 1) 111"
    using numbers by fastforce
  ultimately show ?thesis
    using member numbers by blast
qed

end
